theory Spec2Isabelle
  imports Complex_Main "HOL-Library.Word"
begin

section \<open>Strings\<close>

text \<open>
  Messages, keys and paths are JavaScript strings. They are modelled as \<open>string\<close>, a list
  of 8-bit characters; the case mapping below is the ASCII part of
  \<^verbatim>\<open>String.prototype.toLowerCase\<close> (a character outside \<open>A..Z\<close> is left as it is).
\<close>

definition upperLetters :: string where
  "upperLetters = ''ABCDEFGHIJKLMNOPQRSTUVWXYZ''"

definition lowerLetters :: string where
  "lowerLetters = ''abcdefghijklmnopqrstuvwxyz''"

definition toLowerChar :: "char \<Rightarrow> char" where
  "toLowerChar c = (case map_of (zip upperLetters lowerLetters) c of Some d \<Rightarrow> d | None \<Rightarrow> c)"

definition toLowerCase :: "string \<Rightarrow> string" where
  "toLowerCase s = map toLowerChar s"

text \<open>\<^verbatim>\<open>s.startsWith(sub)\<close> and \<^verbatim>\<open>s.includes(sub)\<close>.\<close>

fun startsWith :: "string \<Rightarrow> string \<Rightarrow> bool" where
  "startsWith s [] = True"
| "startsWith [] (c # sub) = False"
| "startsWith (d # s) (c # sub) = (d = c \<and> startsWith s sub)"

fun stringIncludes :: "string \<Rightarrow> string \<Rightarrow> bool" where
  "stringIncludes [] sub = (sub = [])"
| "stringIncludes (c # s) sub = (startsWith (c # s) sub \<or> stringIncludes s sub)"

text \<open>Decimal rendering of a number, as a template literal does it.\<close>

definition digitChar :: "nat \<Rightarrow> char" where
  "digitChar d = ''0123456789'' ! d"

function showNat :: "nat \<Rightarrow> string" where
  "showNat n = (if n < 10 then [digitChar n] else showNat (n div 10) @ [digitChar (n mod 10)])"
  by pat_completeness auto
termination
  by (relation "measure id") auto

declare showNat.simps [simp del]

definition showInt :: "int \<Rightarrow> string" where
  "showInt i = (if i < 0 then ''-'' @ showNat (nat (- i)) else showNat (nat i))"

section \<open>Authentication-failure classification\<close>

text \<open>\<^verbatim>\<open>isAuthenticationError\<close> of the extension entry point.\<close>

definition isAuthenticationError :: "string \<Rightarrow> bool" where
  "isAuthenticationError message =
     (let normalized = toLowerCase message in
        stringIncludes normalized ''401'' \<or>
        stringIncludes normalized ''403'' \<or>
        stringIncludes normalized ''unauthorized'' \<or>
        stringIncludes normalized ''unauthorised'' \<or>
        stringIncludes normalized ''authentication'' \<or>
        stringIncludes normalized ''invalid api key'' \<or>
        stringIncludes normalized ''incorrect api key'' \<or>
        stringIncludes normalized ''invalid subscription key'' \<or>
        stringIncludes normalized ''access denied'')"

text \<open>
  The marker phrases as the specification documents them; the classifier above is
  compared with this list.
\<close>

definition documentedMarkers :: "string list" where
  "documentedMarkers =
     [''unauthorized'', ''unauthorised'', ''authentication'', ''invalid api key'',
      ''incorrect api key'', ''invalid subscription key'', ''access denied'']"

text \<open>The substrings the classifier searches for, in the order of the source.\<close>

definition needles :: "string list" where
  "needles = ''401'' # ''403'' # documentedMarkers"

section \<open>Configuration and credentials\<close>

datatype TTSProviderType = openai | elevenlabs | azure | local

type_synonym buffer = "8 word list"

record EloquentConfig =
  provider :: TTSProviderType
  openaiApiKey :: string
  elevenlabsApiKey :: string
  azureApiKey :: string
  azureRegion :: string
  voice :: string
  speed :: real
  maxCharacters :: int

fun providerNames :: "TTSProviderType \<Rightarrow> string" where
  "providerNames openai = ''OpenAI''"
| "providerNames elevenlabs = ''ElevenLabs''"
| "providerNames azure = ''Azure''"
| "providerNames local = ''Local TTS''"

fun getProviderApiKey :: "EloquentConfig \<Rightarrow> TTSProviderType \<Rightarrow> string" where
  "getProviderApiKey config openai = openaiApiKey config"
| "getProviderApiKey config elevenlabs = elevenlabsApiKey config"
| "getProviderApiKey config azure = azureApiKey config"
| "getProviderApiKey config local = []"

text \<open>
  A thrown value: an \<^verbatim>\<open>Error\<close> with its message, or anything else. The \<^verbatim>\<open>catch\<close>
  blocks read \<^verbatim>\<open>error instanceof Error ? error.message : 'Unknown error'\<close>.
\<close>

datatype thrown = Error string | NonError

fun messageOf :: "thrown \<Rightarrow> string" where
  "messageOf (Error m) = m"
| "messageOf NonError = ''Unknown error''"

text \<open>
  What the extension does to the outside, in order: the user-interface calls and the
  backend calls. \<open>SynthesizeCall\<close> is one \<^verbatim>\<open>provider.synthesize\<close> call, with the provider,
  the key the provider object was created with, and the text.
\<close>

datatype event =
    ShowError string
  | KeyInvalidDialog string
  | InputBox string
  | ConfigUpdate string string
  | ProgressReport string
  | SynthesizeCall TTSProviderType string string

text \<open>
  The collaborators the orchestrator waits for. \<open>isCancellationRequested W n\<close> is the
  token of attempt \<open>n\<close> read at the check before dispatch; \<open>synthesizeOutcome W n p k\<close> is
  how the backend call of attempt \<open>n\<close> ends for provider \<open>p\<close> created with key \<open>k\<close>;
  \<open>keyInvalidAction W\<close> is the button chosen in the "API key appears invalid" dialog;
  \<open>showInputBox W n\<close> is what the \<open>n\<close>-th input box of the run returns.
\<close>

record world =
  isCancellationRequested :: "nat \<Rightarrow> bool"
  synthesizeOutcome :: "nat \<Rightarrow> TTSProviderType \<Rightarrow> string \<Rightarrow> thrown + buffer"
  keyInvalidAction :: "string option"
  showInputBox :: "nat \<Rightarrow> string option"

fun isInputBox :: "event \<Rightarrow> bool" where
  "isInputBox (InputBox _) = True"
| "isInputBox _ = False"

fun isSynthesizeCall :: "event \<Rightarrow> bool" where
  "isSynthesizeCall (SynthesizeCall _ _ _) = True"
| "isSynthesizeCall _ = False"

fun isShowError :: "event \<Rightarrow> bool" where
  "isShowError (ShowError _) = True"
| "isShowError _ = False"

fun isKeyInvalidDialog :: "event \<Rightarrow> bool" where
  "isKeyInvalidDialog (KeyInvalidDialog _) = True"
| "isKeyInvalidDialog _ = False"

definition inputBoxes :: "event list \<Rightarrow> nat" where
  "inputBoxes tr = length (filter isInputBox tr)"

definition netCalls :: "event list \<Rightarrow> nat" where
  "netCalls tr = length (filter isSynthesizeCall tr)"

definition errorsShown :: "event list \<Rightarrow> event list" where
  "errorsShown tr = filter isShowError tr"

definition rePrompts :: "event list \<Rightarrow> nat" where
  "rePrompts tr = length (filter isKeyInvalidDialog tr)"

text \<open>JavaScript truthiness of a \<^verbatim>\<open>string | undefined\<close>: defined and not empty.\<close>

fun truthy :: "string option \<Rightarrow> bool" where
  "truthy None = False"
| "truthy (Some s) = (s \<noteq> [])"

text \<open>The table \<^verbatim>\<open>prompts\<close> of \<^verbatim>\<open>promptForApiKey\<close>: prompt, placeholder, setting.\<close>

fun prompts :: "TTSProviderType \<Rightarrow> (string \<times> string \<times> string) option" where
  "prompts openai = Some (''Enter your OpenAI API key'', ''sk-...'', ''openaiApiKey'')"
| "prompts elevenlabs =
     Some (''Enter your ElevenLabs API key'', ''Enter API key...'', ''elevenlabsApiKey'')"
| "prompts azure = Some (''Enter your Azure Speech API key'', ''Enter API key...'', ''azureApiKey'')"
| "prompts local = None"

definition promptForApiKey ::
  "world \<Rightarrow> TTSProviderType \<Rightarrow> event list \<Rightarrow> string option \<times> event list" where
  "promptForApiKey W p tr =
     (case prompts p of
        None \<Rightarrow> (None, tr)
      | Some (prompt, placeholder, setting) \<Rightarrow>
          (let key = showInputBox W (inputBoxes tr);
               tr1 = tr @ [InputBox prompt]
           in if truthy key then (key, tr1 @ [ConfigUpdate setting (the key)]) else (key, tr1)))"

section \<open>The orchestrator\<close>

text \<open>
  The task handed to \<^verbatim>\<open>withProgress\<close>: report progress, read the token, call the
  backend. A rejection is \<open>Inl\<close>.
\<close>

definition progressMessage :: "EloquentConfig \<Rightarrow> string" where
  "progressMessage config = ''Generating speech ('' @ providerNames (provider config) @ '')...''"

definition keyInvalidMessage :: "EloquentConfig \<Rightarrow> string" where
  "keyInvalidMessage config =
     ''Eloquent: '' @ providerNames (provider config) @ '' API key appears invalid. Enter a new key?''"

definition progressTask ::
  "world \<Rightarrow> EloquentConfig \<Rightarrow> string \<Rightarrow> nat \<Rightarrow> string \<Rightarrow> event list
     \<Rightarrow> (thrown + buffer) \<times> event list" where
  "progressTask W config selText attempt apiKey tr =
     (let providerType = provider config;
          tr1 = tr @ [ProgressReport (progressMessage config)]
      in if isCancellationRequested W attempt then (Inl (Error ''Cancelled''), tr1)
         else (synthesizeOutcome W attempt providerType apiKey,
               tr1 @ [SynthesizeCall providerType apiKey selText]))"

text \<open>
  The loop \<^verbatim>\<open>for (let attempt = 0; attempt < 2; attempt++)\<close> of
  \<^verbatim>\<open>synthesizeFromSelection\<close>; \<^verbatim>\<open>continue\<close> is the recursive call. The result is the
  returned buffer (\<open>None\<close> for \<^verbatim>\<open>undefined\<close>) and the trace.
\<close>

function attemptLoop ::
  "world \<Rightarrow> EloquentConfig \<Rightarrow> string \<Rightarrow> nat \<Rightarrow> string \<Rightarrow> event list
     \<Rightarrow> buffer option \<times> event list" where
  "attemptLoop W config selText attempt apiKey tr =
     (if attempt < 2 then
        (case progressTask W config selText attempt apiKey tr of
           (Inr audioBuffer, tr1) \<Rightarrow> (Some audioBuffer, tr1)
         | (Inl err, tr1) \<Rightarrow>
             (let message = messageOf err in
              if message = ''Cancelled'' then (None, tr1)
              else
                (let shouldRetryAuth =
                       (provider config \<noteq> local \<and> attempt = 0 \<and> isAuthenticationError message)
                 in if shouldRetryAuth then
                      (let tr2 = tr1 @ [KeyInvalidDialog (keyInvalidMessage config)]
                       in if keyInvalidAction W = Some ''Update Key'' then
                            (case promptForApiKey W (provider config) tr2 of
                               (entered, tr3) \<Rightarrow>
                                 if \<not> truthy entered then (None, tr3)
                                 else attemptLoop W config selText (attempt + 1) (the entered) tr3)
                          else (None, tr2 @ [ShowError (''Eloquent: '' @ message)]))
                    else (None, tr1 @ [ShowError (''Eloquent: '' @ message)]))))
      else (None, tr))"
  by pat_completeness auto
termination
  by (relation "measure (\<lambda>(W, config, selText, attempt, apiKey, tr). 2 - attempt)") auto

declare attemptLoop.simps [simp del]

text \<open>The active editor: whether the selection is empty, and the selected text.\<close>

record editor =
  selectionIsEmpty :: bool
  selectedText :: string

definition synthesizeFromSelection ::
  "world \<Rightarrow> editor option \<Rightarrow> EloquentConfig \<Rightarrow> buffer option \<times> event list" where
  "synthesizeFromSelection W activeTextEditor config =
     (case activeTextEditor of
        None \<Rightarrow> (None, [ShowError ''No active editor''])
      | Some ed \<Rightarrow>
          if selectionIsEmpty ed then (None, [ShowError ''Please select text to process''])
          else if int (length (selectedText ed)) > maxCharacters config then
            (None, [ShowError (''Selected text exceeds maximum of '' @
                               showInt (maxCharacters config) @
                               '' characters. You can adjust this in settings.'')])
          else if provider config \<noteq> local then
            (let apiKey = getProviderApiKey config (provider config) in
             if apiKey = [] then
               (case promptForApiKey W (provider config) [] of
                  (entered, tr) \<Rightarrow>
                    if \<not> truthy entered then (None, tr)
                    else attemptLoop W config (selectedText ed) 0 (the entered) tr)
             else attemptLoop W config (selectedText ed) 0 apiKey [])
          else attemptLoop W config (selectedText ed) 0 [] [])"


section \<open>The hybrid audio player\<close>

text \<open>
  The \<^verbatim>\<open>onStop\<close> callbacks. \<open>ResetPlaying\<close> is the closure the read-aloud command passes
  (it sets the playing indicator to false); any other caller's callback is \<open>Callback n\<close>.
\<close>

datatype callback = ResetPlaying | Callback nat

text \<open>
  The webview panel: the page it shows, the commands posted to it (oldest first), the
  number of listeners registered on it, and how often it was revealed.
\<close>

record WebviewPanel =
  html :: string
  posted :: "string list"
  messageListeners :: nat
  disposeListeners :: nat
  reveals :: nat

text \<open>
  A failing write: the value thrown, and the number of bytes that reached the file when
  the file was created all the same (\<open>None\<close>: no file was created).
\<close>

datatype write_fault = WriteFault thrown "nat option"

text \<open>
  The platform: the temp directory, the paths whose removal or writing the operating
  system refuses, the answer of the save dialog and the URI a file gets inside the
  webview.
\<close>

record platform =
  tmpdir :: string
  unlinkFault :: "string \<Rightarrow> thrown option"
  writeFault :: "string \<Rightarrow> write_fault option"
  showSaveDialog :: "string option"
  asWebviewUri :: "string \<Rightarrow> string"

text \<open>
  The fields of \<^verbatim>\<open>HybridAudioPlayer\<close>, the files on disk, the callbacks invoked so far
  (oldest first), the messages shown to the user and the playing indicator of the
  extension.
\<close>

record host =
  panel :: "WebviewPanel option"
  onDidStopCallback :: "callback option"
  tempFile :: "string option"
  disk :: "string \<rightharpoonup> buffer"
  invoked :: "callback list"
  shown :: "string list"
  isPlaying :: bool

text \<open>The state after \<^verbatim>\<open>new HybridAudioPlayer(context)\<close>, on a given disk.\<close>

definition newPlayer :: "(string \<rightharpoonup> buffer) \<Rightarrow> host" where
  "newPlayer files =
     \<lparr>panel = None, onDidStopCallback = None, tempFile = None, disk = files,
      invoked = [], shown = [], isPlaying = False\<rparr>"

definition existsSync :: "host \<Rightarrow> string \<Rightarrow> bool" where
  "existsSync s file = (disk s file \<noteq> None)"

definition unlinkSync :: "platform \<Rightarrow> string \<Rightarrow> host \<Rightarrow> thrown option \<times> host" where
  "unlinkSync P file s =
     (case unlinkFault P file of
        Some err \<Rightarrow> (Some err, s)
      | None \<Rightarrow>
          if disk s file = None
          then (Some (Error (''ENOENT: no such file or directory, unlink '' @ file)), s)
          else (None, s\<lparr>disk := (disk s)(file := None)\<rparr>))"

definition writeFileSync ::
  "platform \<Rightarrow> string \<Rightarrow> buffer \<Rightarrow> host \<Rightarrow> thrown option \<times> host" where
  "writeFileSync P file content s =
     (case writeFault P file of
        None \<Rightarrow> (None, s\<lparr>disk := (disk s)(file \<mapsto> content)\<rparr>)
      | Some (WriteFault err None) \<Rightarrow> (Some err, s)
      | Some (WriteFault err (Some n)) \<Rightarrow> (Some err, s\<lparr>disk := (disk s)(file \<mapsto> take n content)\<rparr>))"

text \<open>
  \<^verbatim>\<open>cleanup\<close>: the \<^verbatim>\<open>try\<close> around \<^verbatim>\<open>unlinkSync\<close> drops whatever it throws, and the
  field is reset inside the \<^verbatim>\<open>if\<close> only.
\<close>

definition cleanup :: "platform \<Rightarrow> host \<Rightarrow> host" where
  "cleanup P s =
     (case tempFile s of
        None \<Rightarrow> s
      | Some file \<Rightarrow>
          if file \<noteq> [] \<and> existsSync s file
          then (case unlinkSync P file s of (ignored, s1) \<Rightarrow> s1\<lparr>tempFile := None\<rparr>)
          else s)"

definition pathJoin :: "string \<Rightarrow> string \<Rightarrow> string" where
  "pathJoin dir name = dir @ ''/'' @ name"

text \<open>
  \<^verbatim>\<open>getHtml\<close> fills the audio source into a fixed page; the page is identified with
  that source.
\<close>

definition getHtml :: "string \<Rightarrow> string" where
  "getHtml audioSrc = audioSrc"

definition createWebviewPanel :: WebviewPanel where
  "createWebviewPanel =
     \<lparr>html = [], posted = [], messageListeners = 0, disposeListeners = 0, reveals = 0\<rparr>"

datatype outcome = Resolved | Rejected thrown

text \<open>The name of the temp file: \<^verbatim>\<open>path.join(os.tmpdir(), `eloquent-${Date.now()}.mp3`)\<close>.\<close>

definition tempFileName :: "platform \<Rightarrow> nat \<Rightarrow> string" where
  "tempFileName P now = pathJoin (tmpdir P) (''eloquent-'' @ showNat now @ ''.mp3'')"

text \<open>
  \<^verbatim>\<open>play(audioData, onStop)\<close>, with the value of \<^verbatim>\<open>Date.now()\<close>. A throw of
  \<^verbatim>\<open>writeFileSync\<close> rejects the promise with the state as it is at that point.
\<close>

definition play ::
  "platform \<Rightarrow> nat \<Rightarrow> buffer \<Rightarrow> callback option \<Rightarrow> host \<Rightarrow> outcome \<times> host" where
  "play P now audioData onStop s =
     (let s1 = s\<lparr>onDidStopCallback := onStop\<rparr>;
          s2 = cleanup P s1;
          file = tempFileName P now;
          s3 = s2\<lparr>tempFile := Some file\<rparr>
      in case writeFileSync P file audioData s3 of
           (Some err, s4) \<Rightarrow> (Rejected err, s4)
         | (None, s4) \<Rightarrow>
             (let pn = (case panel s4 of
                          None \<Rightarrow> createWebviewPanel\<lparr>disposeListeners := 1, messageListeners := 1\<rparr>
                        | Some existing \<Rightarrow> existing);
                  audioUri = asWebviewUri P file
              in (Resolved,
                  s4\<lparr>panel := Some (pn\<lparr>html := getHtml audioUri, reveals := reveals pn + 1\<rparr>)\<rparr>)))"

definition postMessage :: "string \<Rightarrow> host \<Rightarrow> host" where
  "postMessage command s =
     (case panel s of
        None \<Rightarrow> s
      | Some pn \<Rightarrow> s\<lparr>panel := Some (pn\<lparr>posted := posted pn @ [command]\<rparr>)\<rparr>)"

definition stop :: "platform \<Rightarrow> host \<Rightarrow> host" where
  "stop P s = cleanup P (postMessage ''stop'' s)"

definition pause :: "host \<Rightarrow> host" where
  "pause s = postMessage ''pause'' s"

definition resume :: "host \<Rightarrow> host" where
  "resume s = postMessage ''resume'' s"

fun runCallback :: "callback \<Rightarrow> host \<Rightarrow> host" where
  "runCallback ResetPlaying s = s\<lparr>isPlaying := False\<rparr>"
| "runCallback (Callback n) s = s"

text \<open>\<^verbatim>\<open>this.onDidStopCallback?.()\<close>\<close>

definition invokeStopCallback :: "host \<Rightarrow> host" where
  "invokeStopCallback s =
     (case onDidStopCallback s of
        None \<Rightarrow> s
      | Some cb \<Rightarrow> runCallback cb (s\<lparr>invoked := invoked s @ [cb]\<rparr>))"

definition downloadCurrentAudio :: "platform \<Rightarrow> host \<Rightarrow> host" where
  "downloadCurrentAudio P s =
     (case tempFile s of
        None \<Rightarrow> s\<lparr>shown := shown s @ [''Eloquent: No audio available to download.'']\<rparr>
      | Some file \<Rightarrow>
          if file = [] \<or> \<not> existsSync s file
          then s\<lparr>shown := shown s @ [''Eloquent: No audio available to download.'']\<rparr>
          else
            (case showSaveDialog P of
               None \<Rightarrow> s
             | Some target \<Rightarrow>
                 (case writeFileSync P target (the (disk s file)) s of
                    (None, s1) \<Rightarrow> s1\<lparr>shown := shown s1 @ [''Eloquent: Audio saved to '' @ target]\<rparr>
                  | (Some err, s1) \<Rightarrow>
                      s1\<lparr>shown := shown s1 @
                                    [''Eloquent: Failed to save audio. '' @ messageOf err]\<rparr>)))"

text \<open>The body of the listener registered with \<^verbatim>\<open>onDidReceiveMessage\<close>.\<close>

definition onMessage :: "platform \<Rightarrow> string \<Rightarrow> host \<Rightarrow> host" where
  "onMessage P command s =
     (if command = ''ended'' \<or> command = ''stopped'' then invokeStopCallback s
      else if command = ''ready'' then postMessage ''play'' s
      else if command = ''download'' then downloadCurrentAudio P s
      else s)"

text \<open>The webview posts a command: every listener registered on the panel runs.\<close>

definition receiveMessage :: "platform \<Rightarrow> string \<Rightarrow> host \<Rightarrow> host" where
  "receiveMessage P command s =
     (case panel s of
        None \<Rightarrow> s
      | Some pn \<Rightarrow> ((onMessage P command) ^^ messageListeners pn) s)"

text \<open>The body of the listener registered with \<^verbatim>\<open>onDidDispose\<close>.\<close>

definition onDispose :: "platform \<Rightarrow> host \<Rightarrow> host" where
  "onDispose P s = invokeStopCallback ((cleanup P s)\<lparr>panel := None\<rparr>)"

text \<open>The panel is closed, by the user or by \<^verbatim>\<open>panel.dispose()\<close>.\<close>

definition panelDisposed :: "platform \<Rightarrow> host \<Rightarrow> host" where
  "panelDisposed P s =
     (case panel s of
        None \<Rightarrow> s
      | Some pn \<Rightarrow> ((onDispose P) ^^ disposeListeners pn) s)"

definition dispose :: "platform \<Rightarrow> host \<Rightarrow> host" where
  "dispose P s = (panelDisposed P (stop P s))\<lparr>panel := None\<rparr>"

text \<open>
  The part of the read-aloud command after synthesis: set the indicator, play, and on a
  rejection reset the indicator and show the message.
\<close>

definition readAloudCommand :: "platform \<Rightarrow> nat \<Rightarrow> buffer option \<Rightarrow> host \<Rightarrow> host" where
  "readAloudCommand P now synthesisResult s =
     (case synthesisResult of
        None \<Rightarrow> s
      | Some audio \<Rightarrow>
          (case play P now audio (Some ResetPlaying) (s\<lparr>isPlaying := True\<rparr>) of
             (Resolved, s1) \<Rightarrow> s1
           | (Rejected err, s1) \<Rightarrow>
               (let s2 = s1\<lparr>isPlaying := False\<rparr>;
                    message = messageOf err
                in if message \<noteq> ''Cancelled''
                   then s2\<lparr>shown := shown s2 @ [''Eloquent: '' @ message]\<rparr>
                   else s2)))"

definition stopCommand :: "platform \<Rightarrow> host \<Rightarrow> host" where
  "stopCommand P s = (stop P s)\<lparr>isPlaying := False\<rparr>"

text \<open>
  A panel created by \<^verbatim>\<open>play\<close> carries one listener of each kind; \<^verbatim>\<open>play\<close> registers
  listeners only when it creates the panel.
\<close>

definition singleListeners :: "host \<Rightarrow> bool" where
  "singleListeners s =
     (case panel s of
        None \<Rightarrow> True
      | Some pn \<Rightarrow> messageListeners pn = 1 \<and> disposeListeners pn = 1)"

section \<open>Speed mappings of the backends\<close>

text \<open>
  Speeds are JavaScript numbers. Every arithmetic operation of the source rounds its
  exact result to a number; the rounding is the parameter \<open>fl\<close> of the functions below.
  \<open>rounding fl\<close> holds what is used of it: it is monotone, and exact at \<open>0\<close> and \<open>175\<close>
  (round-to-nearest has these properties, and so has exact arithmetic).
  \<^verbatim>\<open>Math.round\<close> gives the nearest integer, a tie towards \<open>+\<infinity>\<close>.
\<close>

definition rounding :: "(real \<Rightarrow> real) \<Rightarrow> bool" where
  "rounding fl = ((\<forall>x y. x \<le> y \<longrightarrow> fl x \<le> fl y) \<and> fl 0 = 0 \<and> fl 175 = 175)"

definition mathRound :: "real \<Rightarrow> int" where
  "mathRound x = \<lfloor>x + 1 / 2\<rfloor>"

text \<open>\<^verbatim>\<open>LocalTTSProvider.speedToRate\<close> (the SAPI rate).\<close>

definition localSpeedToRate :: "(real \<Rightarrow> real) \<Rightarrow> real \<Rightarrow> int" where
  "localSpeedToRate fl s =
     (if s \<le> 1 then mathRound (fl (fl (s - 1) * 10))
      else mathRound (fl (fl (s - 1) * fl (333 / 100))))"

text \<open>The rate of \<^verbatim>\<open>synthesizeMac\<close> and the speed of \<^verbatim>\<open>synthesizeLinux\<close>, in words per minute.\<close>

definition macRate :: "(real \<Rightarrow> real) \<Rightarrow> real \<Rightarrow> int" where
  "macRate fl s = mathRound (fl (175 * s))"

definition linuxSpeed :: "(real \<Rightarrow> real) \<Rightarrow> real \<Rightarrow> int" where
  "linuxSpeed fl s = mathRound (fl (175 * s))"

text \<open>\<^verbatim>\<open>AzureProvider.speedToRate\<close>: the percentage, and the string built from it.\<close>

definition azurePercent :: "(real \<Rightarrow> real) \<Rightarrow> real \<Rightarrow> int" where
  "azurePercent fl s = mathRound (fl (fl (s - 1) * 100))"

definition azureSpeedToRate :: "(real \<Rightarrow> real) \<Rightarrow> real \<Rightarrow> string" where
  "azureSpeedToRate fl s =
     (let percent = azurePercent fl s in
      if percent \<ge> 0 then ''+'' @ showInt percent @ ''%'' else showInt percent @ ''%'')"

section \<open>Failure messages of the backends\<close>

text \<open>
  The message a backend rejects with on a status other than 200. For OpenAI and
  ElevenLabs it is the message field of the JSON body when the body parses and the
  field is truthy (\<open>parsed\<close>), else the text with the status code; for Azure it is the
  status code followed by the raw body.
\<close>

definition openaiErrorMessage :: "nat \<Rightarrow> string option \<Rightarrow> string" where
  "openaiErrorMessage statusCode parsed =
     (if truthy parsed then the parsed else ''API error: '' @ showNat statusCode)"

definition elevenlabsErrorMessage :: "nat \<Rightarrow> string option \<Rightarrow> string" where
  "elevenlabsErrorMessage statusCode parsed =
     (if truthy parsed then the parsed else ''ElevenLabs API error: '' @ showNat statusCode)"

definition azureErrorMessage :: "nat \<Rightarrow> string \<Rightarrow> string" where
  "azureErrorMessage statusCode errorBody =
     ''Azure API error: '' @ showNat statusCode @ '' - '' @ errorBody"

section \<open>Concrete runs\<close>

text \<open>The inputs at which the theorems below are evaluated.\<close>

definition demoConfig :: EloquentConfig where
  "demoConfig =
     \<lparr>provider = openai, openaiApiKey = ''sk-old'', elevenlabsApiKey = [], azureApiKey = ''az-key'',
      azureRegion = ''eastus'', voice = ''nova'', speed = 1, maxCharacters = 4096\<rparr>"

definition azureConfig :: EloquentConfig where
  "azureConfig = demoConfig\<lparr>provider := azure\<rparr>"

definition demoAudio :: buffer where
  "demoAudio = [73, 68, 51]"

definition demoEditor :: editor where
  "demoEditor = \<lparr>selectionIsEmpty = False, selectedText = ''Hello world''\<rparr>"

text \<open>The token is set at every check before dispatch.\<close>

definition cancelledWorld :: world where
  "cancelledWorld =
     \<lparr>isCancellationRequested = (\<lambda>n. True),
      synthesizeOutcome = (\<lambda>n p k. Inr demoAudio),
      keyInvalidAction = None,
      showInputBox = (\<lambda>n. None)\<rparr>"

text \<open>No cancellation is requested; the backend rejects with the message \<^verbatim>\<open>Cancelled\<close>.\<close>

definition backendCancelledWorld :: world where
  "backendCancelledWorld =
     \<lparr>isCancellationRequested = (\<lambda>n. False),
      synthesizeOutcome = (\<lambda>n p k. Inl (Error ''Cancelled'')),
      keyInvalidAction = None,
      showInputBox = (\<lambda>n. None)\<rparr>"



text \<open>Status 500 on every call.\<close>

definition serverErrorWorld :: world where
  "serverErrorWorld =
     \<lparr>isCancellationRequested = (\<lambda>n. False),
      synthesizeOutcome = (\<lambda>n p k. Inl (Error (openaiErrorMessage 500 None))),
      keyInvalidAction = Some ''Update Key'',
      showInputBox = (\<lambda>n. Some ''sk-new'')\<rparr>"

text \<open>
  A quota failure of the Azure backend: status 429, with a body that carries a count.
\<close>

definition quotaBody :: string where
  "quotaBody = ''Quota exceeded: 403 requests in the current period. Try again later.''"

definition quotaWorld :: world where
  "quotaWorld =
     \<lparr>isCancellationRequested = (\<lambda>n. False),
      synthesizeOutcome = (\<lambda>n p k. Inl (Error (azureErrorMessage 429 quotaBody))),
      keyInvalidAction = None,
      showInputBox = (\<lambda>n. None)\<rparr>"

text \<open>Platforms: every file operation succeeds; no file can be removed; no file can be written.\<close>

definition plainPlatform :: platform where
  "plainPlatform =
     \<lparr>tmpdir = ''/tmp'', unlinkFault = (\<lambda>file. None), writeFault = (\<lambda>file. None),
      showSaveDialog = None, asWebviewUri = (\<lambda>file. ''webview:'' @ file)\<rparr>"

definition lockedPlatform :: platform where
  "lockedPlatform =
     plainPlatform\<lparr>unlinkFault := (\<lambda>file. Some (Error ''EBUSY: resource busy or locked, unlink''))\<rparr>"

definition fullPlatform :: platform where
  "fullPlatform =
     plainPlatform\<lparr>writeFault :=
       (\<lambda>file. Some (WriteFault (Error ''ENOSPC: no space left on device, write'') None))\<rparr>"

definition emptyDisk :: "string \<rightharpoonup> buffer" where
  "emptyDisk = Map.empty"

definition audioA :: buffer where
  "audioA = [73, 68, 51, 1]"

definition audioB :: buffer where
  "audioB = [73, 68, 51, 2]"

text \<open>The player after one call of \<open>play\<close> and after two, on a disk without files.\<close>

definition playedOnce :: "platform \<Rightarrow> host" where
  "playedOnce P = snd (play P 1000 audioA (Some (Callback 1)) (newPlayer emptyDisk))"

definition playedTwice :: "platform \<Rightarrow> host" where
  "playedTwice P = snd (play P 2000 audioB (Some (Callback 2)) (playedOnce P))"

text \<open>Arithmetic without rounding error, and a rounding to multiples of a quarter.\<close>

definition exact :: "real \<Rightarrow> real" where
  "exact x = x"

definition quarters :: "real \<Rightarrow> real" where
  "quarters x = of_int \<lfloor>x * 4\<rfloor> / 4"

text \<open>
  The read-aloud command on a new player, and a call of \<open>play\<close> whose write fails.
\<close>

definition listening :: host where
  "listening = readAloudCommand plainPlatform 1000 (Some audioA) (newPlayer emptyDisk)"

definition failedPlay :: "outcome \<times> host" where
  "failedPlay = play fullPlatform 1000 audioA (Some (Callback 1)) (newPlayer emptyDisk)"

text \<open>
  The disk runs full at the second temp file: its write throws and leaves an empty
  file. The save dialog answers with a path.
\<close>

definition diskFullPlatform :: platform where
  "diskFullPlatform =
     plainPlatform
       \<lparr>writeFault :=
          (\<lambda>file. if file = ''/tmp/eloquent-2000.mp3''
                   then Some (WriteFault (Error ''ENOSPC: no space left on device, write'') (Some 0))
                   else None),
        showSaveDialog := Some ''/home/user/eloquent.mp3''\<rparr>"

definition failedSecondPlay :: "outcome \<times> host" where
  "failedSecondPlay =
     play diskFullPlatform 2000 audioB (Some (Callback 2)) (playedOnce diskFullPlatform)"

section \<open>Properties of the string functions\<close>

lemma startsWith_append: "startsWith (sub @ s) sub"
  by (induction sub) auto

lemma startsWith_iff: "startsWith s sub \<longleftrightarrow> (\<exists>ss. s = sub @ ss)"
  by (induction s sub rule: startsWith.induct) auto

lemma includes_iff: "stringIncludes s sub \<longleftrightarrow> (\<exists>ps ss. s = ps @ sub @ ss)"
proof (induction s)
  case Nil
  then show ?case by auto
next
  case (Cons c s)
  show ?case
  proof
    assume "stringIncludes (c # s) sub"
    then consider "startsWith (c # s) sub" | "stringIncludes s sub" by auto
    then show "\<exists>ps ss. c # s = ps @ sub @ ss"
    proof cases
      case 1
      then obtain ss where "c # s = sub @ ss" by (auto simp: startsWith_iff)
      then have "c # s = [] @ sub @ ss" by simp
      then show ?thesis by blast
    next
      case 2
      with Cons.IH obtain ps ss where "s = ps @ sub @ ss" by blast
      then have "c # s = (c # ps) @ sub @ ss" by simp
      then show ?thesis by blast
    qed
  next
    assume "\<exists>ps ss. c # s = ps @ sub @ ss"
    then obtain ps ss where eq: "c # s = ps @ sub @ ss" by blast
    show "stringIncludes (c # s) sub"
    proof (cases ps)
      case Nil
      with eq have "startsWith (c # s) sub" by (simp add: startsWith_append)
      then show ?thesis by simp
    next
      case (Cons p ps')
      with eq have "s = ps' @ sub @ ss" by simp
      with Cons.IH have "stringIncludes s sub" by blast
      then show ?thesis by simp
    qed
  qed
qed

lemma includes_middle: "stringIncludes (ps @ sub @ ss) sub"
  by (auto simp: includes_iff)

lemma toLowerCase_append: "toLowerCase (a @ b) = toLowerCase a @ toLowerCase b"
  by (simp add: toLowerCase_def)

lemma isAuthenticationError_iff:
  "isAuthenticationError message \<longleftrightarrow> (\<exists>n \<in> set needles. stringIncludes (toLowerCase message) n)"
  by (simp add: isAuthenticationError_def needles_def documentedMarkers_def Let_def)

lemma isAuthenticationError_needle:
  assumes "n \<in> set needles" and "toLowerCase p = n"
  shows "isAuthenticationError (pre @ p @ suf)"
proof -
  have "toLowerCase (pre @ p @ suf) = toLowerCase pre @ n @ toLowerCase suf"
    using assms(2) by (simp add: toLowerCase_append)
  then have "stringIncludes (toLowerCase (pre @ p @ suf)) n"
    by (simp add: includes_middle)
  with assms(1) show ?thesis
    unfolding isAuthenticationError_iff by blast
qed


section \<open>One pass of the attempt loop\<close>

lemma progressTask_cancelled:
  "isCancellationRequested W attempt \<Longrightarrow>
   progressTask W config selText attempt apiKey tr =
     (Inl (Error ''Cancelled''), tr @ [ProgressReport (progressMessage config)])"
  by (simp add: progressTask_def)

lemma progressTask_dispatched:
  "\<not> isCancellationRequested W attempt \<Longrightarrow>
   progressTask W config selText attempt apiKey tr =
     (synthesizeOutcome W attempt (provider config) apiKey,
      tr @ [ProgressReport (progressMessage config),
            SynthesizeCall (provider config) apiKey selText])"
  by (simp add: progressTask_def Let_def)

lemma attemptLoop_cancelled:
  assumes "attempt < 2" and "isCancellationRequested W attempt"
  shows "attemptLoop W config selText attempt apiKey tr =
           (None, tr @ [ProgressReport (progressMessage config)])"
  using assms
  by (subst attemptLoop.simps) (simp add: progressTask_cancelled)


lemma attemptLoop_swallowed:
  assumes "attempt < 2" and "\<not> isCancellationRequested W attempt"
    and "synthesizeOutcome W attempt (provider config) apiKey = Inl err"
    and "messageOf err = ''Cancelled''"
  shows "attemptLoop W config selText attempt apiKey tr =
           (None, tr @ [ProgressReport (progressMessage config),
                        SynthesizeCall (provider config) apiKey selText])"
  using assms
  by (subst attemptLoop.simps) (simp add: progressTask_dispatched)

lemma attemptLoop_terminal:
  assumes "attempt < 2" and "\<not> isCancellationRequested W attempt"
    and "synthesizeOutcome W attempt (provider config) apiKey = Inl err"
    and "messageOf err \<noteq> ''Cancelled''"
    and "attempt = 1 \<or> provider config = local \<or> \<not> isAuthenticationError (messageOf err)"
  shows "attemptLoop W config selText attempt apiKey tr =
           (None, tr @ [ProgressReport (progressMessage config),
                        SynthesizeCall (provider config) apiKey selText,
                        ShowError (''Eloquent: '' @ messageOf err)])"
  using assms
  by (subst attemptLoop.simps) (auto simp add: progressTask_dispatched Let_def)



section \<open>Classification of the documented phrases and status codes\<close>

lemmas string_eval =
  isAuthenticationError_def toLowerCase_def toLowerChar_def upperLetters_def lowerLetters_def
  showNat.simps digitChar_def

lemmas message_eval =
  openaiErrorMessage_def elevenlabsErrorMessage_def azureErrorMessage_def

lemma documentedMarkers_needles: "m \<in> set documentedMarkers \<Longrightarrow> m \<in> set needles"
  by (simp add: needles_def)

lemma status_401_classified: "isAuthenticationError (pre @ ''401'' @ suf)"
  by (rule isAuthenticationError_needle [of "''401''"]) (simp_all add: needles_def string_eval)

lemma status_403_classified: "isAuthenticationError (pre @ ''403'' @ suf)"
  by (rule isAuthenticationError_needle [of "''403''"]) (simp_all add: needles_def string_eval)

lemma backend_401_403_classified:
  "isAuthenticationError (openaiErrorMessage 401 None)"
  "isAuthenticationError (openaiErrorMessage 403 None)"
  "isAuthenticationError (elevenlabsErrorMessage 401 None)"
  "isAuthenticationError (elevenlabsErrorMessage 403 None)"
  "isAuthenticationError (azureErrorMessage 401 body)"
  "isAuthenticationError (azureErrorMessage 403 body)"
proof -
  show "isAuthenticationError (openaiErrorMessage 401 None)"
    by (simp add: string_eval message_eval)
  show "isAuthenticationError (openaiErrorMessage 403 None)"
    by (simp add: string_eval message_eval)
  show "isAuthenticationError (elevenlabsErrorMessage 401 None)"
    by (simp add: string_eval message_eval)
  show "isAuthenticationError (elevenlabsErrorMessage 403 None)"
    by (simp add: string_eval message_eval)
  have "azureErrorMessage 401 body = ''Azure API error: '' @ ''401'' @ ('' - '' @ body)"
    by (simp add: azureErrorMessage_def showNat.simps digitChar_def)
  then show "isAuthenticationError (azureErrorMessage 401 body)"
    by (simp only: status_401_classified)
  have "azureErrorMessage 403 body = ''Azure API error: '' @ ''403'' @ ('' - '' @ body)"
    by (simp add: azureErrorMessage_def showNat.simps digitChar_def)
  then show "isAuthenticationError (azureErrorMessage 403 body)"
    by (simp only: status_403_classified)
qed

lemma generic_failures_not_classified:
  "\<not> isAuthenticationError (openaiErrorMessage 500 None)"
  "\<not> isAuthenticationError (elevenlabsErrorMessage 500 None)"
  "\<not> isAuthenticationError (azureErrorMessage 500 ''Internal Server Error'')"
  "\<not> isAuthenticationError ''connect ETIMEDOUT 104.18.6.192:443''"
  "\<not> isAuthenticationError ''socket hang up''"
  by (simp_all add: string_eval message_eval)

text \<open>
  C2. For each documented marker phrase (unauthorized, unauthorised, authentication,
  invalid api key, incorrect api key, invalid subscription key, access denied),
  \<open>isAuthenticationError\<close> is true on every message that contains the phrase in any
  letter case (a part \<open>p\<close> whose lower-case form is the phrase, between any \<open>pre\<close> and
  \<open>suf\<close>). It is true on every message that contains 401 or 403, in particular on the
  messages the three backends build for these status codes. It is false on the
  backends' messages for a status 500 and on timeout messages of the network layer.
\<close>

theorem isAuthenticationError_documented:
  "(\<forall>m \<in> set documentedMarkers. \<forall>pre p suf.
      toLowerCase p = m \<longrightarrow> isAuthenticationError (pre @ p @ suf)) \<and>
   (\<forall>pre suf. isAuthenticationError (pre @ ''401'' @ suf)) \<and>
   (\<forall>pre suf. isAuthenticationError (pre @ ''403'' @ suf)) \<and>
   (\<forall>body. isAuthenticationError (openaiErrorMessage 401 None) \<and>
           isAuthenticationError (openaiErrorMessage 403 None) \<and>
           isAuthenticationError (elevenlabsErrorMessage 401 None) \<and>
           isAuthenticationError (elevenlabsErrorMessage 403 None) \<and>
           isAuthenticationError (azureErrorMessage 401 body) \<and>
           isAuthenticationError (azureErrorMessage 403 body)) \<and>
   \<not> isAuthenticationError (openaiErrorMessage 500 None) \<and>
   \<not> isAuthenticationError (elevenlabsErrorMessage 500 None) \<and>
   \<not> isAuthenticationError (azureErrorMessage 500 ''Internal Server Error'') \<and>
   \<not> isAuthenticationError ''connect ETIMEDOUT 104.18.6.192:443'' \<and>
   \<not> isAuthenticationError ''socket hang up''"
proof -
  have markers: "\<forall>m \<in> set documentedMarkers. \<forall>pre p suf.
      toLowerCase p = m \<longrightarrow> isAuthenticationError (pre @ p @ suf)"
    using isAuthenticationError_needle documentedMarkers_needles by blast
  show ?thesis
    using markers status_401_classified status_403_classified
      backend_401_403_classified generic_failures_not_classified
    by blast
qed

theorem isAuthenticationError_documented_witness:
  "''invalid api key'' \<in> set documentedMarkers \<and>
   toLowerCase ''Invalid API Key'' = ''invalid api key'' \<and>
   isAuthenticationError (''Error: '' @ ''Invalid API Key'' @ '' provided.'')"
proof -
  have a: "''invalid api key'' \<in> set documentedMarkers"
    by (simp add: documentedMarkers_def)
  have b: "toLowerCase ''Invalid API Key'' = ''invalid api key''"
    by (simp add: string_eval)
  have "\<forall>m \<in> set documentedMarkers. \<forall>pre p suf.
      toLowerCase p = m \<longrightarrow> isAuthenticationError (pre @ p @ suf)"
    using isAuthenticationError_documented by (rule conjunct1)
  with a b show ?thesis by blast
qed

section \<open>Counting calls, messages and re-prompts\<close>

lemma netCalls_append: "netCalls (a @ b) = netCalls a + netCalls b"
  by (simp add: netCalls_def)

lemma rePrompts_append: "rePrompts (a @ b) = rePrompts a + rePrompts b"
  by (simp add: rePrompts_def)

lemma errorsShown_append: "errorsShown (a @ b) = errorsShown a @ errorsShown b"
  by (simp add: errorsShown_def)

lemma inputBoxes_append: "inputBoxes (a @ b) = inputBoxes a + inputBoxes b"
  by (simp add: inputBoxes_def)

lemmas count_simps =
  netCalls_append rePrompts_append errorsShown_append inputBoxes_append
  netCalls_def [of "_ # _"] rePrompts_def [of "_ # _"] errorsShown_def [of "_ # _"]
  inputBoxes_def [of "_ # _"]
  netCalls_def [of "[]"] rePrompts_def [of "[]"] errorsShown_def [of "[]"] inputBoxes_def [of "[]"]









section \<open>The retry policy\<close>

lemmas run_eval =
  demoConfig_def demoEditor_def progressMessage_def keyInvalidMessage_def




section \<open>Cancellation\<close>

text \<open>
  C4. When the cancellation token is set at the check before dispatch of an attempt, the
  run of the loop returns \<^verbatim>\<open>undefined\<close> after the progress report alone: no synthesis
  call is issued, no error message is shown and no re-prompt is offered, and the
  read-aloud command leaves the player and the indicator as they are.
\<close>

theorem cancelled_before_dispatch:
  assumes "attempt < 2" and "isCancellationRequested W attempt"
  shows "attemptLoop W config selText attempt apiKey tr =
           (None, tr @ [ProgressReport (progressMessage config)]) \<and>
         netCalls (snd (attemptLoop W config selText attempt apiKey tr)) = netCalls tr \<and>
         errorsShown (snd (attemptLoop W config selText attempt apiKey tr)) = errorsShown tr \<and>
         rePrompts (snd (attemptLoop W config selText attempt apiKey tr)) = rePrompts tr \<and>
         readAloudCommand P now (fst (attemptLoop W config selText attempt apiKey tr)) s = s"
  using assms by (simp add: attemptLoop_cancelled count_simps readAloudCommand_def)

theorem cancelled_before_dispatch_witness:
  "isCancellationRequested cancelledWorld 0 \<and>
   synthesizeFromSelection cancelledWorld (Some demoEditor) demoConfig =
     (None, [ProgressReport ''Generating speech (OpenAI)...'']) \<and>
   netCalls (snd (synthesizeFromSelection cancelledWorld (Some demoEditor) demoConfig)) = 0 \<and>
   errorsShown (snd (synthesizeFromSelection cancelledWorld (Some demoEditor) demoConfig)) = []"
proof -
  have set: "isCancellationRequested cancelledWorld 0"
    by (simp add: cancelledWorld_def)
  have enter: "synthesizeFromSelection cancelledWorld (Some demoEditor) demoConfig =
      attemptLoop cancelledWorld demoConfig ''Hello world'' 0 ''sk-old'' []"
    by (simp add: synthesizeFromSelection_def Let_def demoConfig_def demoEditor_def)
  have "(0::nat) < 2" by simp
  from cancelled_before_dispatch [OF this set, where config = demoConfig and
      selText = "''Hello world''" and apiKey = "''sk-old''" and tr = "[]"]
  have res: "synthesizeFromSelection cancelledWorld (Some demoEditor) demoConfig =
      (None, [ProgressReport (progressMessage demoConfig)])"
    by (simp add: enter)
  have pm: "progressMessage demoConfig = ''Generating speech (OpenAI)...''"
    by (simp add: progressMessage_def demoConfig_def)
  show ?thesis
    by (simp add: res pm set count_simps)
qed

text \<open>
  C10. A rejection whose message is exactly \<^verbatim>\<open>Cancelled\<close> ends the run like a
  cancellation: no audio, no error message, no re-prompt, whether or not the token was
  set. When the token was not set the call has been dispatched, and its failure is
  dropped.
\<close>

theorem cancelled_message_swallowed:
  assumes "attempt < 2"
    and "synthesizeOutcome W attempt (provider config) apiKey = Inl (Error ''Cancelled'')"
  shows "fst (attemptLoop W config selText attempt apiKey tr) = None \<and>
         errorsShown (snd (attemptLoop W config selText attempt apiKey tr)) = errorsShown tr \<and>
         rePrompts (snd (attemptLoop W config selText attempt apiKey tr)) = rePrompts tr \<and>
         (\<not> isCancellationRequested W attempt \<longrightarrow>
            attemptLoop W config selText attempt apiKey tr =
              (None, tr @ [ProgressReport (progressMessage config),
                           SynthesizeCall (provider config) apiKey selText]))"
proof (cases "isCancellationRequested W attempt")
  case True
  with assms(1) show ?thesis
    by (simp add: attemptLoop_cancelled count_simps)
next
  case False
  have "messageOf (Error ''Cancelled'') = ''Cancelled''" by simp
  from attemptLoop_swallowed [OF assms(1) False assms(2) this]
  show ?thesis
    by (simp add: count_simps)
qed

theorem cancelled_message_swallowed_witness:
  "synthesizeOutcome backendCancelledWorld 0 (provider demoConfig) ''sk-old'' =
     Inl (Error ''Cancelled'') \<and>
   \<not> isCancellationRequested backendCancelledWorld 0 \<and>
   attemptLoop backendCancelledWorld demoConfig ''Hello world'' 0 ''sk-old'' [] =
     (None,
      [ProgressReport ''Generating speech (OpenAI)...'',
       SynthesizeCall openai ''sk-old'' ''Hello world'']) \<and>
   errorsShown (snd (attemptLoop backendCancelledWorld demoConfig ''Hello world'' 0 ''sk-old'' [])) = []"
proof -
  have out: "synthesizeOutcome backendCancelledWorld 0 (provider demoConfig) ''sk-old'' =
     Inl (Error ''Cancelled'')"
    by (simp add: backendCancelledWorld_def)
  have go: "\<not> isCancellationRequested backendCancelledWorld 0"
    by (simp add: backendCancelledWorld_def)
  have pm: "progressMessage demoConfig = ''Generating speech (OpenAI)...''"
    "provider demoConfig = openai"
    by (simp_all add: progressMessage_def demoConfig_def)
  have "(0::nat) < 2" by simp
  from cancelled_message_swallowed [OF this out, of "''Hello world''" "[]"] go
  have res: "attemptLoop backendCancelledWorld demoConfig ''Hello world'' 0 ''sk-old'' [] =
      (None, [ProgressReport ''Generating speech (OpenAI)...'',
              SynthesizeCall openai ''sk-old'' ''Hello world''])"
    by (simp add: pm)
  show ?thesis
    by (simp add: res out go count_simps)
qed

section \<open>Which failures lead to a re-prompt\<close>

text \<open>
  C3, as the code has it. The classification looks for nine substrings in the lower-case
  message. When the message of a failure contains none of them, the classification is
  false, and the run offers no credential re-prompt and issues no further call. (A
  transient or quota failure whose message does contain one of them, such as a count
  or an identifier with the digits 403, is classified as an authentication failure.)
\<close>

theorem no_reprompt_without_signature:
  assumes "attempt < 2"
    and "synthesizeOutcome W attempt (provider config) apiKey = Inl err"
    and "\<forall>n \<in> set needles. \<not> stringIncludes (toLowerCase (messageOf err)) n"
  shows "\<not> isAuthenticationError (messageOf err) \<and>
         rePrompts (snd (attemptLoop W config selText attempt apiKey tr)) = rePrompts tr \<and>
         netCalls (snd (attemptLoop W config selText attempt apiKey tr)) \<le> netCalls tr + 1"
proof -
  from assms(3) have noauth: "\<not> isAuthenticationError (messageOf err)"
    by (simp add: isAuthenticationError_iff)
  show ?thesis
  proof (cases "isCancellationRequested W attempt")
    case True
    with assms(1) noauth show ?thesis
      by (simp add: attemptLoop_cancelled count_simps)
  next
    case go: False
    show ?thesis
    proof (cases "messageOf err = ''Cancelled''")
      case True
      from attemptLoop_swallowed [OF assms(1) go assms(2) True] noauth
      show ?thesis by (simp add: count_simps)
    next
      case False
      from noauth have
        "attempt = 1 \<or> provider config = local \<or> \<not> isAuthenticationError (messageOf err)"
        by simp
      from attemptLoop_terminal [OF assms(1) go assms(2) False this] noauth
      show ?thesis by (simp add: count_simps)
    qed
  qed
qed

theorem no_reprompt_without_signature_witness:
  "synthesizeOutcome serverErrorWorld 0 (provider demoConfig) ''sk-old'' =
     Inl (Error ''API error: 500'') \<and>
   \<not> isAuthenticationError ''API error: 500'' \<and>
   rePrompts (snd (attemptLoop serverErrorWorld demoConfig ''Hello world'' 0 ''sk-old'' [])) = 0 \<and>
   netCalls (snd (attemptLoop serverErrorWorld demoConfig ''Hello world'' 0 ''sk-old'' [])) \<le> 1"
proof -
  have out: "synthesizeOutcome serverErrorWorld 0 (provider demoConfig) ''sk-old'' =
     Inl (Error ''API error: 500'')"
    by (simp add: serverErrorWorld_def run_eval string_eval message_eval)
  have free: "\<forall>n \<in> set needles.
      \<not> stringIncludes (toLowerCase (messageOf (Error ''API error: 500''))) n"
    by (simp add: needles_def documentedMarkers_def string_eval)
  have "(0::nat) < 2" by simp
  from no_reprompt_without_signature [OF this out free, of "''Hello world''" "[]"]
  show ?thesis
    using out by (simp add: count_simps)
qed

text \<open>
  C3 as stated fails: the Azure backend answers 429 with a body that reports a count of
  403 requests. The message is classified as an authentication failure and the run
  offers the re-prompt.
\<close>

theorem quota_failure_reprompt_counterexample:
  "synthesizeOutcome quotaWorld 0 azure ''az-key'' =
     Inl (Error ''Azure API error: 429 - Quota exceeded: 403 requests in the current period. Try again later.'') \<and>
   isAuthenticationError
     ''Azure API error: 429 - Quota exceeded: 403 requests in the current period. Try again later.'' \<and>
   synthesizeFromSelection quotaWorld (Some demoEditor) azureConfig =
     (None,
      [ProgressReport ''Generating speech (Azure)...'',
       SynthesizeCall azure ''az-key'' ''Hello world'',
       KeyInvalidDialog ''Eloquent: Azure API key appears invalid. Enter a new key?'',
       ShowError ''Eloquent: Azure API error: 429 - Quota exceeded: 403 requests in the current period. Try again later.'']) \<and>
   rePrompts (snd (synthesizeFromSelection quotaWorld (Some demoEditor) azureConfig)) = 1"
  by (simp add: synthesizeFromSelection_def attemptLoop.simps progressTask_def
      promptForApiKey_def Let_def quotaWorld_def quotaBody_def azureConfig_def
      run_eval string_eval message_eval count_simps)

section \<open>Speed mappings\<close>

lemma mathRound_mono: "x \<le> y \<Longrightarrow> mathRound x \<le> mathRound y"
  by (simp add: mathRound_def floor_mono)

lemma rounding_mono: "rounding fl \<Longrightarrow> x \<le> y \<Longrightarrow> fl x \<le> fl y"
  by (simp add: rounding_def)

lemma rounding_nonneg: "rounding fl \<Longrightarrow> 0 \<le> x \<Longrightarrow> 0 \<le> fl x"
  using rounding_mono [of fl 0 x] by (simp add: rounding_def)

lemma rounding_nonpos: "rounding fl \<Longrightarrow> x \<le> 0 \<Longrightarrow> fl x \<le> 0"
  using rounding_mono [of fl x 0] by (simp add: rounding_def)

lemma localSpeedToRate_mono:
  assumes fl: "rounding fl" and le: "s1 \<le> s2"
  shows "localSpeedToRate fl s1 \<le> localSpeedToRate fl s2"
proof -
  from le have "s1 - 1 \<le> s2 - 1" by simp
  then have d: "fl (s1 - 1) \<le> fl (s2 - 1)"
    by (rule rounding_mono [OF fl])
  have c: "0 \<le> fl (333 / 100)"
    by (rule rounding_nonneg [OF fl]) simp
  consider "s2 \<le> 1" | "1 < s1" | "s1 \<le> 1" "1 < s2" using le by linarith
  then show ?thesis
  proof cases
    case 1
    with le have "s1 \<le> 1" by simp
    moreover have "fl (s1 - 1) * 10 \<le> fl (s2 - 1) * 10"
      using d by simp
    then have "fl (fl (s1 - 1) * 10) \<le> fl (fl (s2 - 1) * 10)"
      by (rule rounding_mono [OF fl])
    ultimately show ?thesis
      using 1 by (simp add: localSpeedToRate_def mathRound_mono)
  next
    case 2
    with le have "1 < s2" by simp
    moreover have "fl (s1 - 1) * fl (333 / 100) \<le> fl (s2 - 1) * fl (333 / 100)"
      using d c by (rule mult_right_mono)
    then have "fl (fl (s1 - 1) * fl (333 / 100)) \<le> fl (fl (s2 - 1) * fl (333 / 100))"
      by (rule rounding_mono [OF fl])
    ultimately show ?thesis
      using 2 by (simp add: localSpeedToRate_def mathRound_mono)
  next
    case 3
    from 3(1) have "s1 - 1 \<le> 0" by simp
    then have "fl (s1 - 1) \<le> 0"
      by (rule rounding_nonpos [OF fl])
    then have "fl (s1 - 1) * 10 \<le> 0" by simp
    then have lo: "fl (fl (s1 - 1) * 10) \<le> 0"
      by (rule rounding_nonpos [OF fl])
    from 3(2) have "0 \<le> s2 - 1" by simp
    then have "0 \<le> fl (s2 - 1)"
      by (rule rounding_nonneg [OF fl])
    with c have "0 \<le> fl (s2 - 1) * fl (333 / 100)" by simp
    then have hi: "0 \<le> fl (fl (s2 - 1) * fl (333 / 100))"
      by (rule rounding_nonneg [OF fl])
    from lo hi have "fl (fl (s1 - 1) * 10) \<le> fl (fl (s2 - 1) * fl (333 / 100))"
      by linarith
    then show ?thesis
      using 3 by (simp add: localSpeedToRate_def mathRound_mono)
  qed
qed

lemma wordsPerMinute_mono:
  assumes fl: "rounding fl" and le: "s1 \<le> s2"
  shows "macRate fl s1 \<le> macRate fl s2" and "linuxSpeed fl s1 \<le> linuxSpeed fl s2"
proof -
  from le have "175 * s1 \<le> 175 * s2" by simp
  then have "fl (175 * s1) \<le> fl (175 * s2)"
    by (rule rounding_mono [OF fl])
  then show "macRate fl s1 \<le> macRate fl s2" and "linuxSpeed fl s1 \<le> linuxSpeed fl s2"
    by (simp_all add: macRate_def linuxSpeed_def mathRound_mono)
qed

lemma azurePercent_mono:
  assumes fl: "rounding fl" and le: "s1 \<le> s2"
  shows "azurePercent fl s1 \<le> azurePercent fl s2"
proof -
  from le have "s1 - 1 \<le> s2 - 1" by simp
  then have "fl (s1 - 1) \<le> fl (s2 - 1)"
    by (rule rounding_mono [OF fl])
  then have "fl (s1 - 1) * 100 \<le> fl (s2 - 1) * 100"
    by simp
  then have "fl (fl (s1 - 1) * 100) \<le> fl (fl (s2 - 1) * 100)"
    by (rule rounding_mono [OF fl])
  then show ?thesis
    by (simp add: azurePercent_def mathRound_mono)
qed

lemma identity_point:
  assumes fl: "rounding fl"
  shows "localSpeedToRate fl 1 = 0" and "macRate fl 1 = 175" and "linuxSpeed fl 1 = 175"
    and "azurePercent fl 1 = 0" and "azureSpeedToRate fl 1 = ''+0%''"
proof -
  from fl have z: "fl 0 = 0" and w: "fl 175 = 175"
    by (simp_all add: rounding_def)
  show "localSpeedToRate fl 1 = 0"
    by (simp add: localSpeedToRate_def mathRound_def z)
  show "macRate fl 1 = 175" and "linuxSpeed fl 1 = 175"
    by (simp_all add: macRate_def linuxSpeed_def mathRound_def w)
  show p: "azurePercent fl 1 = 0"
    by (simp add: azurePercent_def mathRound_def z)
  show "azureSpeedToRate fl 1 = ''+0%''"
    by (simp add: azureSpeedToRate_def p showInt_def showNat.simps digitChar_def)
qed

lemma rounding_exact: "rounding exact"
  by (simp add: rounding_def exact_def)

lemma rounding_quarters: "rounding quarters"
proof -
  have "quarters x \<le> quarters y" if "x \<le> y" for x y
  proof -
    from that have "\<lfloor>x * 4\<rfloor> \<le> \<lfloor>y * 4\<rfloor>"
      by (intro floor_mono) simp
    then show ?thesis
      by (simp add: quarters_def divide_right_mono)
  qed
  then show ?thesis
    by (simp add: rounding_def quarters_def)
qed

text \<open>
  C9. For every rounding of the arithmetic that is monotone and exact at 0 and 175, each
  speed transform is non-decreasing in the speed: the SAPI rate of
  \<open>LocalTTSProvider.speedToRate\<close>, the words per minute of the macOS and Linux paths, and
  the percentage of \<open>AzureProvider.speedToRate\<close>. This holds over all speeds, so over
  0.25 to 4.0. Speed 1.0 maps to SAPI rate 0, to 175 words per minute and to the
  string \<^verbatim>\<open>+0%\<close>.
\<close>

theorem speed_mappings_monotone:
  assumes "rounding fl" and "s1 \<le> s2"
  shows "localSpeedToRate fl s1 \<le> localSpeedToRate fl s2 \<and>
         macRate fl s1 \<le> macRate fl s2 \<and>
         linuxSpeed fl s1 \<le> linuxSpeed fl s2 \<and>
         azurePercent fl s1 \<le> azurePercent fl s2 \<and>
         localSpeedToRate fl 1 = 0 \<and> macRate fl 1 = 175 \<and> linuxSpeed fl 1 = 175 \<and>
         azurePercent fl 1 = 0 \<and> azureSpeedToRate fl 1 = ''+0%''"
  using localSpeedToRate_mono [OF assms] wordsPerMinute_mono [OF assms]
    azurePercent_mono [OF assms] identity_point [OF assms(1)]
  by simp

theorem speed_mappings_monotone_witness:
  "rounding exact \<and> (1 / 4 :: real) \<le> 4 \<and>
   localSpeedToRate exact (1 / 4) = - 7 \<and> localSpeedToRate exact 4 = 10 \<and>
   localSpeedToRate exact (1 / 4) \<le> localSpeedToRate exact 4 \<and>
   macRate exact (1 / 4) \<le> macRate exact 4 \<and>
   azurePercent exact (1 / 4) \<le> azurePercent exact 4 \<and>
   azureSpeedToRate exact (1 / 4) = ''-75%'' \<and> azureSpeedToRate exact 4 = ''+300%'' \<and>
   azureSpeedToRate exact 1 = ''+0%'' \<and>
   rounding quarters \<and> localSpeedToRate quarters (1 / 4) \<le> localSpeedToRate quarters 4"
proof -
  have le: "(1 / 4 :: real) \<le> 4" by simp
  note a = speed_mappings_monotone [OF rounding_exact le]
  note b = speed_mappings_monotone [OF rounding_quarters le]
  have v: "localSpeedToRate exact (1 / 4) = - 7" "localSpeedToRate exact 4 = 10"
    by (simp_all add: localSpeedToRate_def mathRound_def exact_def)
  have p: "azurePercent exact (1 / 4) = - 75" "azurePercent exact 4 = 300"
    by (simp_all add: azurePercent_def mathRound_def exact_def)
  have s: "azureSpeedToRate exact (1 / 4) = ''-75%''" "azureSpeedToRate exact 4 = ''+300%''"
    by (simp_all add: azureSpeedToRate_def p showInt_def showNat.simps digitChar_def)
  from a b v s rounding_exact rounding_quarters le show ?thesis by simp
qed

section \<open>Teardown of the player\<close>

lemma tempFileName_nonempty: "tempFileName P now \<noteq> []"
  by (simp add: tempFileName_def pathJoin_def)

lemma cleanup_idle: "tempFile s = None \<Longrightarrow> cleanup P s = s"
  by (simp add: cleanup_def)

lemma cleanup_missing: "tempFile s = Some f \<Longrightarrow> disk s f = None \<Longrightarrow> cleanup P s = s"
  by (simp add: cleanup_def existsSync_def)

lemma cleanup_removes:
  assumes "tempFile s = Some f" and "f \<noteq> []" and "disk s f \<noteq> None" and "unlinkFault P f = None"
  shows "cleanup P s = s\<lparr>tempFile := None, disk := (disk s)(f := None)\<rparr>"
  using assms by (auto simp: cleanup_def existsSync_def unlinkSync_def)

lemma cleanup_dropped_error:
  assumes "tempFile s = Some f" and "f \<noteq> []" and "disk s f \<noteq> None" and "unlinkFault P f = Some e"
  shows "cleanup P s = s\<lparr>tempFile := None\<rparr>"
  using assms by (auto simp: cleanup_def existsSync_def unlinkSync_def)

lemma cleanup_keeps:
  "panel (cleanup P s) = panel s"
  "onDidStopCallback (cleanup P s) = onDidStopCallback s"
  "invoked (cleanup P s) = invoked s"
  "shown (cleanup P s) = shown s"
  "isPlaying (cleanup P s) = isPlaying s"
  by (auto simp: cleanup_def unlinkSync_def split: option.splits)

lemma cleanup_twice: "cleanup P (cleanup P s) = cleanup P s"
  by (auto simp: cleanup_def unlinkSync_def existsSync_def split: option.splits)

lemma cleanup_postMessage: "cleanup P (postMessage c s) = postMessage c (cleanup P s)"
  by (auto simp: cleanup_def unlinkSync_def existsSync_def postMessage_def split: option.splits)

lemma postMessage_keeps:
  "tempFile (postMessage c s) = tempFile s"
  "disk (postMessage c s) = disk s"
  "onDidStopCallback (postMessage c s) = onDidStopCallback s"
  "invoked (postMessage c s) = invoked s"
  "shown (postMessage c s) = shown s"
  "isPlaying (postMessage c s) = isPlaying s"
  by (simp_all add: postMessage_def split: option.splits)

lemma stop_twice: "stop P (stop P s) = postMessage ''stop'' (stop P s)"
  by (simp add: stop_def cleanup_postMessage cleanup_twice)

lemmas player_eval =
  play_def cleanup_def unlinkSync_def writeFileSync_def existsSync_def tempFileName_def
  pathJoin_def newPlayer_def createWebviewPanel_def getHtml_def postMessage_def stop_def
  invokeStopCallback_def onMessage_def receiveMessage_def readAloudCommand_def
  singleListeners_def Let_def plainPlatform_def emptyDisk_def showNat.simps digitChar_def

text \<open>
  C6, as the code has it. \<open>stop\<close> posts the stop command when a panel exists and then runs
  \<open>cleanup\<close>: a referenced temp file that exists is removed (an error of the removal is
  dropped) and the reference is cleared. It does not invoke the \<open>onStop\<close> callback and
  leaves the playing indicator alone. It has no failing path; with no panel and no temp
  file it changes nothing; a second \<open>stop\<close> does nothing but post the command again.
\<close>

theorem stop_effects:
  "panel (stop P s) =
     (case panel s of None \<Rightarrow> None | Some pn \<Rightarrow> Some (pn\<lparr>posted := posted pn @ [''stop'']\<rparr>)) \<and>
   (\<forall>f. tempFile s = Some f \<and> f \<noteq> [] \<and> disk s f \<noteq> None \<longrightarrow>
      tempFile (stop P s) = None \<and>
      disk (stop P s) = (if unlinkFault P f = None then (disk s)(f := None) else disk s)) \<and>
   invoked (stop P s) = invoked s \<and>
   onDidStopCallback (stop P s) = onDidStopCallback s \<and>
   isPlaying (stop P s) = isPlaying s \<and>
   (panel s = None \<and> tempFile s = None \<longrightarrow> stop P s = s) \<and>
   stop P (stop P s) = postMessage ''stop'' (stop P s)"
proof -
  have p: "panel (stop P s) =
     (case panel s of None \<Rightarrow> None | Some pn \<Rightarrow> Some (pn\<lparr>posted := posted pn @ [''stop'']\<rparr>))"
    by (simp add: stop_def cleanup_keeps postMessage_def split: option.splits)
  have r: "\<forall>f. tempFile s = Some f \<and> f \<noteq> [] \<and> disk s f \<noteq> None \<longrightarrow>
      tempFile (stop P s) = None \<and>
      disk (stop P s) = (if unlinkFault P f = None then (disk s)(f := None) else disk s)"
  proof (intro allI impI)
    fix f
    assume a: "tempFile s = Some f \<and> f \<noteq> [] \<and> disk s f \<noteq> None"
    let ?s = "postMessage ''stop'' s"
    from a have b: "tempFile ?s = Some f" "f \<noteq> []" "disk ?s f \<noteq> None"
      by (simp_all add: postMessage_keeps)
    show "tempFile (stop P s) = None \<and>
      disk (stop P s) = (if unlinkFault P f = None then (disk s)(f := None) else disk s)"
    proof (cases "unlinkFault P f")
      case None
      from cleanup_removes [OF b None] show ?thesis
        by (simp add: stop_def None postMessage_keeps)
    next
      case (Some e)
      from cleanup_dropped_error [OF b Some] show ?thesis
        by (simp add: stop_def Some postMessage_keeps)
    qed
  qed
  have k: "invoked (stop P s) = invoked s"
    "onDidStopCallback (stop P s) = onDidStopCallback s"
    "isPlaying (stop P s) = isPlaying s"
    by (simp_all add: stop_def cleanup_keeps postMessage_keeps)
  have i: "panel s = None \<and> tempFile s = None \<longrightarrow> stop P s = s"
    by (simp add: stop_def postMessage_def cleanup_def)
  from p r k i stop_twice [of P s] show ?thesis by blast
qed

theorem stop_effects_witness:
  "tempFile (playedOnce plainPlatform) = Some ''/tmp/eloquent-1000.mp3'' \<and>
   disk (playedOnce plainPlatform) ''/tmp/eloquent-1000.mp3'' = Some audioA \<and>
   tempFile (stop plainPlatform (playedOnce plainPlatform)) = None \<and>
   disk (stop plainPlatform (playedOnce plainPlatform)) ''/tmp/eloquent-1000.mp3'' = None \<and>
   panel (newPlayer emptyDisk) = None \<and> tempFile (newPlayer emptyDisk) = None \<and>
   stop plainPlatform (newPlayer emptyDisk) = newPlayer emptyDisk"
proof -
  have a: "tempFile (playedOnce plainPlatform) = Some ''/tmp/eloquent-1000.mp3''"
    "disk (playedOnce plainPlatform) ''/tmp/eloquent-1000.mp3'' = Some audioA"
    by (simp_all add: playedOnce_def player_eval)
  have u: "unlinkFault plainPlatform ''/tmp/eloquent-1000.mp3'' = None"
    by (simp add: plainPlatform_def)
  have n: "panel (newPlayer emptyDisk) = None" "tempFile (newPlayer emptyDisk) = None"
    by (simp_all add: newPlayer_def)
  note one = stop_effects [of plainPlatform "playedOnce plainPlatform"]
  note idle = stop_effects [of plainPlatform "newPlayer emptyDisk"]
  from one a u have "tempFile (stop plainPlatform (playedOnce plainPlatform)) = None \<and>
      disk (stop plainPlatform (playedOnce plainPlatform)) =
        (disk (playedOnce plainPlatform))(''/tmp/eloquent-1000.mp3'' := None)"
    by simp
  then have b: "tempFile (stop plainPlatform (playedOnce plainPlatform)) = None"
    "disk (stop plainPlatform (playedOnce plainPlatform)) ''/tmp/eloquent-1000.mp3'' = None"
    by simp_all
  from idle n have c: "stop plainPlatform (newPlayer emptyDisk) = newPlayer emptyDisk"
    by blast
  from a b n c show ?thesis by simp
qed

text \<open>
  C6 as stated fails: after \<open>play\<close> with a callback, \<open>stop\<close> returns with no callback
  invoked.
\<close>

theorem stop_callback_counterexample:
  "onDidStopCallback (playedOnce plainPlatform) = Some (Callback 1) \<and>
   invoked (playedOnce plainPlatform) = [] \<and>
   invoked (stop plainPlatform (playedOnce plainPlatform)) = []"
  by (simp add: playedOnce_def player_eval)

section \<open>Starting a session\<close>

lemma play_resolved:
  assumes "writeFault P (tempFileName P now) = None"
  shows "play P now audioData onStop s =
     (Resolved,
      (cleanup P (s\<lparr>onDidStopCallback := onStop\<rparr>))
        \<lparr>tempFile := Some (tempFileName P now),
         disk := (disk (cleanup P (s\<lparr>onDidStopCallback := onStop\<rparr>)))(tempFileName P now \<mapsto> audioData),
         panel := Some
           ((case panel s of
               None \<Rightarrow> createWebviewPanel\<lparr>disposeListeners := 1, messageListeners := 1\<rparr>
             | Some existing \<Rightarrow> existing)
            \<lparr>html := getHtml (asWebviewUri P (tempFileName P now)),
             reveals := reveals (case panel s of
                                   None \<Rightarrow> createWebviewPanel\<lparr>disposeListeners := 1, messageListeners := 1\<rparr>
                                 | Some existing \<Rightarrow> existing) + 1\<rparr>)\<rparr>)"
  using assms
  by (simp add: play_def writeFileSync_def Let_def cleanup_keeps)

lemma play_rejected:
  assumes "writeFault P (tempFileName P now) = Some (WriteFault err part)"
  shows "play P now audioData onStop s =
     (Rejected err,
      (cleanup P (s\<lparr>onDidStopCallback := onStop\<rparr>))
        \<lparr>tempFile := Some (tempFileName P now),
         disk := (case part of
                    None \<Rightarrow> disk (cleanup P (s\<lparr>onDidStopCallback := onStop\<rparr>))
                  | Some n \<Rightarrow> (disk (cleanup P (s\<lparr>onDidStopCallback := onStop\<rparr>)))
                                (tempFileName P now \<mapsto> take n audioData))\<rparr>)"
  using assms
  by (cases part) (simp_all add: play_def writeFileSync_def Let_def)

lemma play_singleListeners:
  assumes "singleListeners s"
  shows "singleListeners (snd (play P now audioData onStop s))"
proof (cases "writeFault P (tempFileName P now)")
  case None
  from assms show ?thesis
    by (simp add: play_resolved [OF None] singleListeners_def createWebviewPanel_def
        split: option.splits)
next
  case (Some wf)
  obtain err part where "wf = WriteFault err part" by (cases wf)
  with Some have wf: "writeFault P (tempFileName P now) = Some (WriteFault err part)" by simp
  from assms show ?thesis
    by (simp add: play_rejected [OF wf] singleListeners_def cleanup_keeps)
qed

text \<open>
  C5, as the code has it. Let \<open>play\<close> be called twice on a new player, with both writes
  succeeding and the removal of the first temp file not refused. Both calls resolve.
  The second call removes the first file before it writes the second: between teardown
  and setup the disk is the initial one without the first file. Afterwards the disk is
  the initial one with the first file removed and the second written (one temp file on
  a disk that had none), the session refers to the second file, the stored callback is
  the second one, and the panel carries one message listener and one dispose listener.
  (When the removal is refused the error is dropped and the first file stays on disk.)
\<close>

theorem play_twice_one_resource:
  assumes "writeFault P (tempFileName P t1) = None"
    and "writeFault P (tempFileName P t2) = None"
    and "unlinkFault P (tempFileName P t1) = None"
  shows "let s1 = snd (play P t1 d1 cb1 (newPlayer files));
             s2 = snd (play P t2 d2 cb2 s1)
         in fst (play P t1 d1 cb1 (newPlayer files)) = Resolved \<and>
            fst (play P t2 d2 cb2 s1) = Resolved \<and>
            disk s1 = files(tempFileName P t1 \<mapsto> d1) \<and>
            disk (cleanup P (s1\<lparr>onDidStopCallback := cb2\<rparr>)) = files(tempFileName P t1 := None) \<and>
            disk s2 = (files(tempFileName P t1 := None))(tempFileName P t2 \<mapsto> d2) \<and>
            dom (disk s2) = insert (tempFileName P t2) (dom files - {tempFileName P t1}) \<and>
            tempFile s2 = Some (tempFileName P t2) \<and>
            onDidStopCallback s2 = cb2 \<and>
            panel s2 \<noteq> None \<and> singleListeners s2"
proof -
  let ?f1 = "tempFileName P t1" and ?f2 = "tempFileName P t2"
  let ?r1 = "play P t1 d1 cb1 (newPlayer files)"
  let ?s1 = "snd ?r1"
  let ?r2 = "play P t2 d2 cb2 ?s1"
  let ?s2 = "snd ?r2"
  have r1: "fst ?r1 = Resolved"
    by (simp add: play_resolved [OF assms(1)])
  have s1: "tempFile ?s1 = Some ?f1" "disk ?s1 = files(?f1 \<mapsto> d1)" "panel ?s1 \<noteq> None"
    by (simp_all add: play_resolved [OF assms(1)] cleanup_idle newPlayer_def)
  let ?m = "?s1\<lparr>onDidStopCallback := cb2\<rparr>"
  have m: "tempFile ?m = Some ?f1" "disk ?m ?f1 \<noteq> None"
    by (simp_all add: s1)
  have mid: "cleanup P ?m = ?m\<lparr>tempFile := None, disk := (disk ?m)(?f1 := None)\<rparr>"
    by (rule cleanup_removes [OF m(1) tempFileName_nonempty m(2) assms(3)])
  then have gone: "disk (cleanup P ?m) = files(?f1 := None)"
    by (simp add: s1)
  have r2: "fst ?r2 = Resolved"
    by (simp add: play_resolved [OF assms(2)])
  have d2: "disk ?s2 = (files(?f1 := None))(?f2 \<mapsto> d2)"
    by (simp add: play_resolved [OF assms(2)] gone)
  then have dm: "dom (disk ?s2) = insert ?f2 (dom files - {?f1})"
    by auto
  have t2: "tempFile ?s2 = Some ?f2" "onDidStopCallback ?s2 = cb2" "panel ?s2 \<noteq> None"
    by (simp_all add: play_resolved [OF assms(2)] cleanup_keeps)
  have "singleListeners (newPlayer files)"
    by (simp add: singleListeners_def newPlayer_def)
  then have "singleListeners ?s1" by (rule play_singleListeners)
  then have l2: "singleListeners ?s2" by (rule play_singleListeners)
  from r1 r2 s1(2) gone d2 dm t2 l2 show ?thesis
    by (simp add: Let_def)
qed

theorem play_twice_one_resource_witness:
  "writeFault plainPlatform (tempFileName plainPlatform 1000) = None \<and>
   writeFault plainPlatform (tempFileName plainPlatform 2000) = None \<and>
   unlinkFault plainPlatform (tempFileName plainPlatform 1000) = None \<and>
   tempFileName plainPlatform 2000 = ''/tmp/eloquent-2000.mp3'' \<and>
   dom (disk (playedTwice plainPlatform)) = {''/tmp/eloquent-2000.mp3''} \<and>
   tempFile (playedTwice plainPlatform) = Some ''/tmp/eloquent-2000.mp3'' \<and>
   onDidStopCallback (playedTwice plainPlatform) = Some (Callback 2) \<and>
   singleListeners (playedTwice plainPlatform)"
proof -
  have h: "writeFault plainPlatform (tempFileName plainPlatform 1000) = None"
    "writeFault plainPlatform (tempFileName plainPlatform 2000) = None"
    "unlinkFault plainPlatform (tempFileName plainPlatform 1000) = None"
    by (simp_all add: plainPlatform_def)
  have n: "tempFileName plainPlatform 2000 = ''/tmp/eloquent-2000.mp3''"
    by (simp add: tempFileName_def pathJoin_def plainPlatform_def showNat.simps digitChar_def)
  from play_twice_one_resource [OF h, of audioA "Some (Callback 1)" emptyDisk audioB "Some (Callback 2)"]
  have "dom (disk (playedTwice plainPlatform)) =
          insert (tempFileName plainPlatform 2000) (dom emptyDisk - {tempFileName plainPlatform 1000}) \<and>
        tempFile (playedTwice plainPlatform) = Some (tempFileName plainPlatform 2000) \<and>
        onDidStopCallback (playedTwice plainPlatform) = Some (Callback 2) \<and>
        singleListeners (playedTwice plainPlatform)"
    by (simp add: Let_def playedTwice_def playedOnce_def)
  then show ?thesis
    using h by (simp add: n emptyDisk_def)
qed

text \<open>
  C5 as stated fails: when the operating system refuses to remove the first temp file,
  \<open>cleanup\<close> drops the error, and after the second \<open>play\<close> both files are on disk.
\<close>

theorem play_twice_counterexample:
  "disk (playedTwice lockedPlatform) ''/tmp/eloquent-1000.mp3'' = Some audioA \<and>
   disk (playedTwice lockedPlatform) ''/tmp/eloquent-2000.mp3'' = Some audioB \<and>
   tempFile (playedTwice lockedPlatform) = Some ''/tmp/eloquent-2000.mp3''"
  by (simp add: playedTwice_def playedOnce_def lockedPlatform_def player_eval)

text \<open>
  What a failing write leaves behind, on every platform and from every state: \<open>play\<close>
  rejects with the error thrown and the panel is as before the call, but the callback is
  replaced, the previous temp file has gone through \<open>cleanup\<close>, and the session refers to
  the file whose write failed. The read-aloud command resets the playing indicator and
  shows the message, unless the message is \<^verbatim>\<open>Cancelled\<close>.
\<close>

lemma play_rejected_state:
  assumes "writeFault P (tempFileName P now) = Some (WriteFault err part)"
  shows "fst (play P now audioData onStop s) = Rejected err \<and>
         panel (snd (play P now audioData onStop s)) = panel s \<and>
         onDidStopCallback (snd (play P now audioData onStop s)) = onStop \<and>
         tempFile (snd (play P now audioData onStop s)) = Some (tempFileName P now) \<and>
         disk (snd (play P now audioData onStop s)) =
           (case part of
              None \<Rightarrow> disk (cleanup P (s\<lparr>onDidStopCallback := onStop\<rparr>))
            | Some n \<Rightarrow> (disk (cleanup P (s\<lparr>onDidStopCallback := onStop\<rparr>)))
                          (tempFileName P now \<mapsto> take n audioData)) \<and>
         \<not> isPlaying (readAloudCommand P now (Some audioData) s) \<and>
         shown (readAloudCommand P now (Some audioData) s) =
           (if messageOf err \<noteq> ''Cancelled'' then shown s @ [''Eloquent: '' @ messageOf err]
            else shown s)"
proof -
  note rej = play_rejected [OF assms]
  have a: "fst (play P now audioData onStop s) = Rejected err"
    "panel (snd (play P now audioData onStop s)) = panel s"
    "onDidStopCallback (snd (play P now audioData onStop s)) = onStop"
    "tempFile (snd (play P now audioData onStop s)) = Some (tempFileName P now)"
    by (simp_all add: rej cleanup_keeps)
  have d: "disk (snd (play P now audioData onStop s)) =
           (case part of
              None \<Rightarrow> disk (cleanup P (s\<lparr>onDidStopCallback := onStop\<rparr>))
            | Some n \<Rightarrow> (disk (cleanup P (s\<lparr>onDidStopCallback := onStop\<rparr>)))
                          (tempFileName P now \<mapsto> take n audioData))"
    by (simp add: rej)
  have c: "\<not> isPlaying (readAloudCommand P now (Some audioData) s)"
    "shown (readAloudCommand P now (Some audioData) s) =
           (if messageOf err \<noteq> ''Cancelled'' then shown s @ [''Eloquent: '' @ messageOf err]
            else shown s)"
    by (simp_all add: readAloudCommand_def rej Let_def cleanup_keeps)
  from a d c show ?thesis by simp
qed

text \<open>
  C8. The code at two failing writes; in both the session keeps a reference to a stale
  temp resource, which the claim excludes. On a new player whose first write fails with
  no file created, \<open>play\<close> rejects and the session refers to a file that does not exist,
  with the new callback stored. On a player that has played once and whose second write
  fails leaving an empty file, \<open>play\<close> rejects, the first file is removed while the panel
  still shows it, the session refers to the empty file with the second callback stored,
  and a download then copies the empty file and reports the audio as saved.
\<close>

theorem play_write_failure_stale_reference:
  "fst failedPlay = Rejected (Error ''ENOSPC: no space left on device, write'') \<and>
   tempFile (snd failedPlay) = Some ''/tmp/eloquent-1000.mp3'' \<and>
   disk (snd failedPlay) ''/tmp/eloquent-1000.mp3'' = None \<and>
   onDidStopCallback (snd failedPlay) = Some (Callback 1) \<and>
   fst failedSecondPlay = Rejected (Error ''ENOSPC: no space left on device, write'') \<and>
   tempFile (snd failedSecondPlay) = Some ''/tmp/eloquent-2000.mp3'' \<and>
   disk (snd failedSecondPlay) ''/tmp/eloquent-2000.mp3'' = Some [] \<and>
   disk (snd failedSecondPlay) ''/tmp/eloquent-1000.mp3'' = None \<and>
   map_option html (panel (snd failedSecondPlay)) = Some ''webview:/tmp/eloquent-1000.mp3'' \<and>
   onDidStopCallback (snd failedSecondPlay) = Some (Callback 2) \<and>
   shown (receiveMessage diskFullPlatform ''download'' (snd failedSecondPlay)) =
     [''Eloquent: Audio saved to /home/user/eloquent.mp3''] \<and>
   disk (receiveMessage diskFullPlatform ''download'' (snd failedSecondPlay))
     ''/home/user/eloquent.mp3'' = Some []"
proof -
  have first: "fst failedPlay = Rejected (Error ''ENOSPC: no space left on device, write'')"
    "tempFile (snd failedPlay) = Some ''/tmp/eloquent-1000.mp3''"
    "disk (snd failedPlay) ''/tmp/eloquent-1000.mp3'' = None"
    "onDidStopCallback (snd failedPlay) = Some (Callback 1)"
    by (simp_all add: failedPlay_def fullPlatform_def player_eval)
  have second: "fst failedSecondPlay = Rejected (Error ''ENOSPC: no space left on device, write'')"
    "tempFile (snd failedSecondPlay) = Some ''/tmp/eloquent-2000.mp3''"
    "disk (snd failedSecondPlay) ''/tmp/eloquent-2000.mp3'' = Some []"
    "disk (snd failedSecondPlay) ''/tmp/eloquent-1000.mp3'' = None"
    "map_option html (panel (snd failedSecondPlay)) = Some ''webview:/tmp/eloquent-1000.mp3''"
    "onDidStopCallback (snd failedSecondPlay) = Some (Callback 2)"
    by (simp_all add: failedSecondPlay_def playedOnce_def diskFullPlatform_def player_eval)
  have download:
    "shown (receiveMessage diskFullPlatform ''download'' (snd failedSecondPlay)) =
       [''Eloquent: Audio saved to /home/user/eloquent.mp3'']"
    "disk (receiveMessage diskFullPlatform ''download'' (snd failedSecondPlay))
       ''/home/user/eloquent.mp3'' = Some []"
    by (simp_all add: failedSecondPlay_def playedOnce_def diskFullPlatform_def
        downloadCurrentAudio_def player_eval)
  from first second download show ?thesis by simp
qed

section \<open>Messages from the rendering surface\<close>

text \<open>
  C7, as the code has it. When the panel (with its one message listener) reports
  \<^verbatim>\<open>ended\<close> or \<^verbatim>\<open>stopped\<close>, the session invokes the stored \<open>onStop\<close> callback once, if there
  is one, and does nothing else: the temp file stays on disk and referenced, the panel
  is unchanged. With the callback of the read-aloud command the playing indicator is
  reset.
\<close>

theorem ended_invokes_callback:
  assumes "panel s = Some pn" and "messageListeners pn = 1"
    and "command = ''ended'' \<or> command = ''stopped''"
  shows "receiveMessage P command s = invokeStopCallback s \<and>
         invoked (receiveMessage P command s) =
           invoked s @ (case onDidStopCallback s of None \<Rightarrow> [] | Some cb \<Rightarrow> [cb]) \<and>
         tempFile (receiveMessage P command s) = tempFile s \<and>
         disk (receiveMessage P command s) = disk s \<and>
         panel (receiveMessage P command s) = panel s \<and>
         onDidStopCallback (receiveMessage P command s) = onDidStopCallback s \<and>
         (onDidStopCallback s = Some ResetPlaying \<longrightarrow> \<not> isPlaying (receiveMessage P command s))"
proof -
  from assms have eq: "receiveMessage P command s = invokeStopCallback s"
    by (auto simp: receiveMessage_def onMessage_def)
  show ?thesis
  proof (cases "onDidStopCallback s")
    case None
    then show ?thesis
      by (simp add: eq invokeStopCallback_def)
  next
    case (Some cb)
    then show ?thesis
      by (cases cb) (simp_all add: eq invokeStopCallback_def)
  qed
qed

theorem ended_invokes_callback_witness:
  "panel listening \<noteq> None \<and> singleListeners listening \<and> isPlaying listening \<and>
   onDidStopCallback listening = Some ResetPlaying \<and>
   invoked (receiveMessage plainPlatform ''ended'' listening) = [ResetPlaying] \<and>
   \<not> isPlaying (receiveMessage plainPlatform ''ended'' listening)"
proof -
  obtain pn where pn: "panel listening = Some pn" "messageListeners pn = 1"
    by (simp add: listening_def player_eval)
  have c: "onDidStopCallback listening = Some ResetPlaying" "invoked listening = []"
    "isPlaying listening" "singleListeners listening"
    by (simp_all add: listening_def player_eval)
  have "''ended'' = ''ended'' \<or> ''ended'' = ''stopped''" by simp
  note inst = ended_invokes_callback [OF pn this, of plainPlatform]
  from inst have
    "invoked (receiveMessage plainPlatform ''ended'' listening) =
       invoked listening @ (case onDidStopCallback listening of None \<Rightarrow> [] | Some cb \<Rightarrow> [cb])"
    by blast
  with c have i: "invoked (receiveMessage plainPlatform ''ended'' listening) = [ResetPlaying]"
    by simp
  from inst c(1) have p: "\<not> isPlaying (receiveMessage plainPlatform ''ended'' listening)"
    by blast
  from pn c i p show ?thesis by simp
qed

text \<open>
  C7 as stated fails: after \<^verbatim>\<open>ended\<close> the temp file is still on disk and still
  referenced by the session.
\<close>

theorem ended_keeps_resource_counterexample:
  "tempFile (receiveMessage plainPlatform ''ended'' listening) = Some ''/tmp/eloquent-1000.mp3'' \<and>
   disk (receiveMessage plainPlatform ''ended'' listening) ''/tmp/eloquent-1000.mp3'' = Some audioA \<and>
   invoked (receiveMessage plainPlatform ''ended'' listening) = [ResetPlaying]"
  by (simp add: listening_def player_eval)

end
